theory Spec2Isabelle
  imports Main "HOL-Library.Word"
begin

section \<open>Python values, exceptions and formatting\<close>

text \<open>
  The values that \<open>response.json()\<close> hands to the client: Python's \<open>None\<close>, booleans,
  integers, floats (kept as their IEEE bit pattern; no operation of the client inspects
  one), strings, lists and dictionaries. A dictionary is kept as an association list and
  read with \<open>map_of\<close>. The fields of \<open>ChatResponse\<close> hold such values: the dataclass
  annotations are not enforced at run time, so whatever \<open>data.get\<close> returns is stored.
\<close>

datatype pyval =
    PNone
  | PBool bool
  | PInt int
  | PFloat "64 word"
  | PStr string
  | PList "pyval list"
  | PDict "(string \<times> pyval) list"

text \<open>
  The exception classes the client meets. The first seven are classes of
  \<open>requests.exceptions\<close>; \<open>RequestsJSONDecodeError\<close> is
  \<open>requests.exceptions.JSONDecodeError\<close>, which \<open>Response.json\<close> raises from requests 2.27
  on and which derives from \<open>InvalidJSONError\<close>, itself a \<open>RequestException\<close>;
  \<open>JSONDecodeError\<close> is \<open>json.JSONDecodeError\<close>, a \<open>ValueError\<close>, which older versions of
  requests let through. \<open>ConnectTimeout\<close> derives from both \<open>ConnectionError\<close> and
  \<open>Timeout\<close>, \<open>ReadTimeout\<close> from \<open>Timeout\<close>.
\<close>

datatype exc_class =
    RequestException
  | Timeout
  | ConnectTimeout
  | ReadTimeout
  | ConnectionError
  | HTTPError
  | RequestsJSONDecodeError
  | JSONDecodeError
  | AttributeError
  | FileNotFoundError
  | IsADirectoryError
  | OtherError

datatype exc = Exc (exc_class: exc_class) (exc_str: string)

fun isinstance_Timeout :: "exc \<Rightarrow> bool" where
  "isinstance_Timeout (Exc c m) = (c = Timeout \<or> c = ConnectTimeout \<or> c = ReadTimeout)"

fun isinstance_RequestException :: "exc \<Rightarrow> bool" where
  "isinstance_RequestException (Exc c m) =
     (c = RequestException \<or> c = Timeout \<or> c = ConnectTimeout \<or> c = ReadTimeout
      \<or> c = ConnectionError \<or> c = HTTPError \<or> c = RequestsJSONDecodeError)"

text \<open>Python's \<open>str\<close> of an integer, as the f-strings of the client format it.\<close>

fun str_nat :: "nat \<Rightarrow> string" where
  "str_nat n =
     (if n < 10 then [''0123456789'' ! n]
      else str_nat (n div 10) @ [''0123456789'' ! (n mod 10)])"

declare str_nat.simps [simp del]

definition str_int :: "int \<Rightarrow> string" where
  "str_int i = (if i < 0 then ''-'' @ str_nat (nat (- i)) else str_nat (nat i))"

text \<open>
  What an f-string puts for \<open>{v}\<close>. For a float, a list or a dictionary the text is
  Python's \<open>repr\<close>, which the client does not compute itself: it is the parameter
  \<open>fmt\<close>.
\<close>

fun py_str :: "(pyval \<Rightarrow> string) \<Rightarrow> pyval \<Rightarrow> string" where
  "py_str fmt (PStr s) = s"
| "py_str fmt PNone = ''None''"
| "py_str fmt (PBool b) = (if b then ''True'' else ''False'')"
| "py_str fmt (PInt i) = str_int i"
| "py_str fmt v = fmt v"

text \<open>\<open>dict.get(key, default)\<close>; \<open>dict.get(key)\<close> is the case \<open>default = PNone\<close>.\<close>

definition dict_get :: "(string \<times> pyval) list \<Rightarrow> string \<Rightarrow> pyval \<Rightarrow> pyval" where
  "dict_get kvs k d = (case map_of kvs k of None \<Rightarrow> d | Some v \<Rightarrow> v)"

text \<open>\<open>str.rstrip('/')\<close>: every trailing slash is removed.\<close>

definition rstrip_slash :: "string \<Rightarrow> string" where
  "rstrip_slash s = rev (dropWhile (\<lambda>c. c = CHR ''/'') (rev s))"

section \<open>The HTTP boundary\<close>

text \<open>
  One call of \<open>requests.get\<close> or \<open>requests.post\<close> either raises or returns a
  response. What the response's \<open>json()\<close> does (return the decoded body or raise) is
  part of the response. The network is a parameter: it answers a request given the
  requests sent before it. The requests sent and the lines printed are the state that
  the operations thread through.
\<close>

datatype http_method = GET | POST

record request =
  req_method :: http_method
  req_url :: string
  req_json :: "pyval option"
  req_timeout :: int

record http_response =
  status_code :: int
  reason :: string
  resp_url :: string
  json_result :: "exc + pyval"

datatype http_outcome = Raised exc | Responded http_response

type_synonym network = "request list \<Rightarrow> request \<Rightarrow> http_outcome"

record io =
  sent :: "request list"
  stdout :: "string list"

definition requests_request :: "network \<Rightarrow> request \<Rightarrow> io \<Rightarrow> http_outcome \<times> io" where
  "requests_request net req s = (net (sent s) req, s\<lparr>sent := sent s @ [req]\<rparr>)"

definition requests_get :: "network \<Rightarrow> string \<Rightarrow> int \<Rightarrow> io \<Rightarrow> http_outcome \<times> io" where
  "requests_get net u t s =
     requests_request net \<lparr>req_method = GET, req_url = u, req_json = None, req_timeout = t\<rparr> s"

definition requests_post ::
  "network \<Rightarrow> string \<Rightarrow> pyval option \<Rightarrow> int \<Rightarrow> io \<Rightarrow> http_outcome \<times> io" where
  "requests_post net u j t s =
     requests_request net \<lparr>req_method = POST, req_url = u, req_json = j, req_timeout = t\<rparr> s"

definition print :: "string \<Rightarrow> io \<Rightarrow> io" where
  "print line s = s\<lparr>stdout := stdout s @ [line]\<rparr>"

text \<open>
  \<open>Response.raise_for_status\<close> of requests: an \<open>HTTPError\<close> for a status from 400 to
  599, nothing for any other status.
\<close>

definition raise_for_status :: "http_response \<Rightarrow> exc + unit" where
  "raise_for_status r =
     (if 400 \<le> status_code r \<and> status_code r < 500 then
        Inl (Exc HTTPError
          (str_int (status_code r) @ '' Client Error: '' @ reason r @ '' for url: '' @ resp_url r))
      else if 500 \<le> status_code r \<and> status_code r < 600 then
        Inl (Exc HTTPError
          (str_int (status_code r) @ '' Server Error: '' @ reason r @ '' for url: '' @ resp_url r))
      else Inr ())"

section \<open>ChatResponse\<close>

record ChatResponse =
  status :: pyval
  project_id :: pyval
  response :: pyval
  error :: pyval
  images_uploaded :: pyval

definition success :: "ChatResponse \<Rightarrow> bool" where
  "success r = (status r = PStr ''success'')"

section \<open>AIClient\<close>

record AIClient =
  base_url :: string
  timeout :: int

definition verify_connection :: "network \<Rightarrow> AIClient \<Rightarrow> io \<Rightarrow> (exc + unit) \<times> io" where
  "verify_connection net self s =
     (case requests_get net (base_url self @ ''/status'') 5 s of
        (Responded r, s1) \<Rightarrow>
          (if status_code r \<noteq> 200
           then (Inr (), print (''Warning: API returned status code '' @ str_int (status_code r)) s1)
           else (Inr (), s1))
      | (Raised e, s1) \<Rightarrow>
          (if isinstance_RequestException e
           then (Inr (), print (''Warning: Could not connect to API: '' @ exc_str e) s1)
           else (Inl e, s1)))"

definition AIClient_init :: "network \<Rightarrow> string \<Rightarrow> int \<Rightarrow> io \<Rightarrow> (exc + AIClient) \<times> io" where
  "AIClient_init net url t s =
     (let self = \<lparr>base_url = rstrip_slash url, timeout = t\<rparr> in
      case verify_connection net self s of
        (Inl e, s1) \<Rightarrow> (Inl e, s1)
      | (Inr u, s1) \<Rightarrow> (Inr self, s1))"

text \<open>The payload of \<open>chat\<close>: the three keys are always there, \<open>None\<close> when not given.\<close>

definition chat_payload :: "string \<Rightarrow> string option \<Rightarrow> string list option \<Rightarrow> pyval" where
  "chat_payload prompt project_url images =
     PDict [(''prompt'', PStr prompt),
            (''project_url'', case project_url of None \<Rightarrow> PNone | Some u \<Rightarrow> PStr u),
            (''images'', case images of None \<Rightarrow> PNone | Some xs \<Rightarrow> PList (map PStr xs))]"

text \<open>
  The \<open>AttributeError\<close> of \<open>data.get\<close> when \<open>data\<close> is not a dictionary; its text
  names the type of the value.
\<close>

fun type_name :: "pyval \<Rightarrow> string" where
  "type_name PNone = ''NoneType''"
| "type_name (PBool b) = ''bool''"
| "type_name (PInt i) = ''int''"
| "type_name (PFloat f) = ''float''"
| "type_name (PStr s) = ''str''"
| "type_name (PList xs) = ''list''"
| "type_name (PDict kvs) = ''dict''"

definition no_attribute_get :: "pyval \<Rightarrow> exc" where
  "no_attribute_get v =
     Exc AttributeError
       ([CHR 0x27] @ type_name v @ [CHR 0x27] @ '' object has no attribute ''
        @ [CHR 0x27] @ ''get'' @ [CHR 0x27])"

text \<open>
  The body of the \<open>try\<close> block once the response is there: \<open>raise_for_status\<close>,
  \<open>json()\<close>, and the five \<open>data.get\<close> calls, which raise \<open>AttributeError\<close> on a
  decoded body that is not a dictionary.
\<close>

definition chat_parse :: "http_response \<Rightarrow> exc + ChatResponse" where
  "chat_parse r =
     (case raise_for_status r of
        Inl e \<Rightarrow> Inl e
      | Inr u \<Rightarrow>
          (case json_result r of
             Inl e \<Rightarrow> Inl e
           | Inr (PDict data) \<Rightarrow>
               Inr \<lparr>status = dict_get data ''status'' (PStr ''error''),
                    project_id = dict_get data ''project_id'' PNone,
                    response = dict_get data ''response'' PNone,
                    error = dict_get data ''error'' PNone,
                    images_uploaded = dict_get data ''images_uploaded'' PNone\<rparr>
           | Inr v \<Rightarrow> Inl (no_attribute_get v)))"

text \<open>The two \<open>except\<close> clauses, in the order of the source.\<close>

definition chat_except :: "exc \<Rightarrow> exc + ChatResponse" where
  "chat_except e =
     (if isinstance_Timeout e then
        Inr \<lparr>status = PStr ''error'', project_id = PNone, response = PNone,
             error = PStr ''Request timeout - AI taking too long to respond'',
             images_uploaded = PNone\<rparr>
      else if isinstance_RequestException e then
        Inr \<lparr>status = PStr ''error'', project_id = PNone, response = PNone,
             error = PStr (''Request failed: '' @ exc_str e),
             images_uploaded = PNone\<rparr>
      else Inl e)"

definition chat ::
  "network \<Rightarrow> AIClient \<Rightarrow> string \<Rightarrow> string option \<Rightarrow> string list option \<Rightarrow> io
     \<Rightarrow> (exc + ChatResponse) \<times> io" where
  "chat net self prompt project_url images s =
     (case requests_post net (base_url self @ ''/chat'')
             (Some (chat_payload prompt project_url images)) (timeout self) s of
        (Raised e, s1) \<Rightarrow> (chat_except e, s1)
      | (Responded r, s1) \<Rightarrow>
          (case chat_parse r of
             Inl e \<Rightarrow> (chat_except e, s1)
           | Inr c \<Rightarrow> (Inr c, s1)))"

text \<open>
  The three monitoring operations: no \<open>try\<close>, so whatever the call, \<open>raise_for_status\<close>
  or \<open>json()\<close> raises reaches the caller.
\<close>

definition json_or_raise :: "http_outcome \<Rightarrow> exc + pyval" where
  "json_or_raise out =
     (case out of
        Raised e \<Rightarrow> Inl e
      | Responded r \<Rightarrow>
          (case raise_for_status r of
             Inl e \<Rightarrow> Inl e
           | Inr u \<Rightarrow> json_result r))"

definition get_status :: "network \<Rightarrow> AIClient \<Rightarrow> io \<Rightarrow> (exc + pyval) \<times> io" where
  "get_status net self s =
     (case requests_get net (base_url self @ ''/status'') 5 s of
        (out, s1) \<Rightarrow> (json_or_raise out, s1))"

definition list_projects :: "network \<Rightarrow> AIClient \<Rightarrow> io \<Rightarrow> (exc + pyval) \<times> io" where
  "list_projects net self s =
     (case requests_get net (base_url self @ ''/projects'') 5 s of
        (out, s1) \<Rightarrow> (json_or_raise out, s1))"

definition reload_engine :: "network \<Rightarrow> AIClient \<Rightarrow> io \<Rightarrow> (exc + pyval) \<times> io" where
  "reload_engine net self s =
     (case requests_post net (base_url self @ ''/reload'') None 30 s of
        (out, s1) \<Rightarrow> (json_or_raise out, s1))"

section \<open>The free functions\<close>

text \<open>
  Base64 of the standard library (RFC 4648, with padding): three bytes give four
  sextets, each written as one character of the alphabet. The shifts and masks are
  written as division and remainder on the bytes' values.
\<close>

definition b64_alphabet :: string where
  "b64_alphabet = ''ABCDEFGHIJKLMNOPQRSTUVWXYZabcdefghijklmnopqrstuvwxyz0123456789+/''"

definition b64_char :: "nat \<Rightarrow> char" where
  "b64_char i = b64_alphabet ! i"

definition b64_index :: "char \<Rightarrow> nat option" where
  "b64_index c = map_of (zip b64_alphabet [0..<64]) c"

fun b64encode :: "8 word list \<Rightarrow> string" where
  "b64encode [] = []"
| "b64encode [a] =
     [b64_char (unat a div 4), b64_char (unat a mod 4 * 16), CHR ''='', CHR ''='']"
| "b64encode [a, b] =
     [b64_char (unat a div 4), b64_char (unat a mod 4 * 16 + unat b div 16),
      b64_char (unat b mod 16 * 4), CHR ''='']"
| "b64encode (a # b # c # rest) =
     [b64_char (unat a div 4), b64_char (unat a mod 4 * 16 + unat b div 16),
      b64_char (unat b mod 16 * 4 + unat c div 64), b64_char (unat c mod 64)]
     @ b64encode rest"

text \<open>
  The decoder: groups of four characters, the last one with one or two \<open>=\<close> of
  padding; \<open>None\<close> for text that is not base64.
\<close>

fun b64decode :: "string \<Rightarrow> 8 word list option" where
  "b64decode [] = Some []"
| "b64decode (c1 # c2 # c3 # c4 # rest) =
     (if c3 = CHR ''='' \<and> c4 = CHR ''='' \<and> rest = [] then
        (case (b64_index c1, b64_index c2) of
           (Some i1, Some i2) \<Rightarrow> Some [of_nat (i1 * 4 + i2 div 16)]
         | _ \<Rightarrow> None)
      else if c4 = CHR ''='' \<and> rest = [] then
        (case (b64_index c1, b64_index c2, b64_index c3) of
           (Some i1, Some i2, Some i3) \<Rightarrow>
             Some [of_nat (i1 * 4 + i2 div 16), of_nat (i2 mod 16 * 16 + i3 div 4)]
         | _ \<Rightarrow> None)
      else
        (case (b64_index c1, b64_index c2, b64_index c3, b64_index c4) of
           (Some i1, Some i2, Some i3, Some i4) \<Rightarrow>
             (case b64decode rest of
                None \<Rightarrow> None
              | Some bs \<Rightarrow>
                  Some (of_nat (i1 * 4 + i2 div 16) # of_nat (i2 mod 16 * 16 + i3 div 4)
                        # of_nat (i3 mod 4 * 64 + i4) # bs))
         | _ \<Rightarrow> None))"
| "b64decode cs = None"

text \<open>
  The file system that \<open>open(path, "rb")\<close> sees: a path names nothing, a directory or a
  file with its bytes.
\<close>

datatype fs_entry = RegularFile "8 word list" | Directory

type_synonym filesystem = "string \<Rightarrow> fs_entry option"

definition open_rb :: "filesystem \<Rightarrow> string \<Rightarrow> exc + 8 word list" where
  "open_rb fs path =
     (case fs path of
        None \<Rightarrow> Inl (Exc FileNotFoundError (''[Errno 2] No such file or directory: '' @ path))
      | Some Directory \<Rightarrow> Inl (Exc IsADirectoryError (''[Errno 21] Is a directory: '' @ path))
      | Some (RegularFile bs) \<Rightarrow> Inr bs)"

text \<open>
  \<open>encode_image\<close>: the base64 text is ASCII, so decoding it as UTF-8 gives its
  characters.
\<close>

definition encode_image :: "filesystem \<Rightarrow> string \<Rightarrow> exc + string" where
  "encode_image fs image_path =
     (case open_rb fs image_path of
        Inl e \<Rightarrow> Inl e
      | Inr bs \<Rightarrow> Inr (b64encode bs))"

text \<open>
  \<open>quick_chat\<close>: a client with the default timeout of 180 seconds, one \<open>chat\<close>, and
  the conditional expression of the last line. The result is a Python value, since
  \<open>response.response\<close> is whatever the body held.
\<close>

definition quick_chat ::
  "(pyval \<Rightarrow> string) \<Rightarrow> network \<Rightarrow> string \<Rightarrow> string \<Rightarrow> string option \<Rightarrow> string list option
     \<Rightarrow> io \<Rightarrow> (exc + pyval) \<times> io" where
  "quick_chat fmt net prompt url project_url images s =
     (case AIClient_init net url 180 s of
        (Inl e, s1) \<Rightarrow> (Inl e, s1)
      | (Inr client, s1) \<Rightarrow>
          (case chat net client prompt project_url images s1 of
             (Inl e, s2) \<Rightarrow> (Inl e, s2)
           | (Inr r, s2) \<Rightarrow>
               (Inr (if success r then response r
                     else PStr (''Error: '' @ py_str fmt (error r))), s2)))"

section \<open>Requests and networks used to state the properties\<close>

text \<open>The request that \<open>chat\<close> hands to \<open>requests.post\<close>.\<close>

definition chat_request ::
  "AIClient \<Rightarrow> string \<Rightarrow> string option \<Rightarrow> string list option \<Rightarrow> request" where
  "chat_request self prompt project_url images =
     \<lparr>req_method = POST, req_url = base_url self @ ''/chat'',
      req_json = Some (chat_payload prompt project_url images), req_timeout = timeout self\<rparr>"

text \<open>The request of the connectivity probe.\<close>

definition probe_request :: "AIClient \<Rightarrow> request" where
  "probe_request self =
     \<lparr>req_method = GET, req_url = base_url self @ ''/status'', req_json = None, req_timeout = 5\<rparr>"

text \<open>
  Two concrete networks: one gives every request the same outcome, the other one
  outcome to every GET and another to every POST.
\<close>

definition const_network :: "http_outcome \<Rightarrow> network" where
  "const_network out h q = out"

definition method_network :: "http_outcome \<Rightarrow> http_outcome \<Rightarrow> network" where
  "method_network on_get on_post h q = (case req_method q of GET \<Rightarrow> on_get | POST \<Rightarrow> on_post)"

text \<open>A file system with one file.\<close>

definition one_file :: "string \<Rightarrow> 8 word list \<Rightarrow> filesystem" where
  "one_file name bs path = (if path = name then Some (RegularFile bs) else None)"

section \<open>What each operation computes\<close>

lemma chat_eq:
  "chat net self p u im s =
     (case net (sent s) (chat_request self p u im) of
        Raised e \<Rightarrow> chat_except e
      | Responded r \<Rightarrow> (case chat_parse r of Inl e \<Rightarrow> chat_except e | Inr c \<Rightarrow> Inr c),
      s\<lparr>sent := sent s @ [chat_request self p u im]\<rparr>)"
  by (simp add: chat_def requests_post_def requests_request_def chat_request_def
      split: http_outcome.splits sum.splits)

lemma verify_connection_eq:
  "verify_connection net self s =
     (case net (sent s) (probe_request self) of
        Responded r \<Rightarrow>
          (Inr (), \<lparr>sent = sent s @ [probe_request self],
                    stdout = stdout s @ (if status_code r \<noteq> 200
                      then [''Warning: API returned status code '' @ str_int (status_code r)]
                      else [])\<rparr>)
      | Raised e \<Rightarrow>
          (if isinstance_RequestException e
           then (Inr (), \<lparr>sent = sent s @ [probe_request self],
                    stdout = stdout s @ [''Warning: Could not connect to API: '' @ exc_str e]\<rparr>)
           else (Inl e, \<lparr>sent = sent s @ [probe_request self], stdout = stdout s\<rparr>)))"
  by (simp add: verify_connection_def requests_get_def requests_request_def probe_request_def
      print_def split: http_outcome.splits)

lemma AIClient_init_eq:
  "AIClient_init net url t s =
     (case verify_connection net \<lparr>base_url = rstrip_slash url, timeout = t\<rparr> s of
        (Inl e, s1) \<Rightarrow> (Inl e, s1)
      | (Inr u, s1) \<Rightarrow> (Inr \<lparr>base_url = rstrip_slash url, timeout = t\<rparr>, s1))"
  by (simp add: AIClient_init_def Let_def)

lemma AIClient_init_ok:
  assumes "\<forall>e. net (sent s) (probe_request \<lparr>base_url = rstrip_slash url, timeout = t\<rparr>) = Raised e
             \<longrightarrow> isinstance_RequestException e"
  shows "fst (AIClient_init net url t s) = Inr \<lparr>base_url = rstrip_slash url, timeout = t\<rparr>"
    and "sent (snd (AIClient_init net url t s)) =
           sent s @ [probe_request \<lparr>base_url = rstrip_slash url, timeout = t\<rparr>]"
  using assms
  by (auto simp add: AIClient_init_eq verify_connection_eq split: http_outcome.splits)

lemma monitoring_eq:
  "json_or_raise out =
     (case out of
        Raised e \<Rightarrow> Inl e
      | Responded r \<Rightarrow>
          if 400 \<le> status_code r \<and> status_code r < 600
          then Inl (Exc HTTPError (str_int (status_code r)
                 @ (if status_code r < 500 then '' Client Error: '' else '' Server Error: '')
                 @ reason r @ '' for url: '' @ resp_url r))
          else json_result r)"
  by (simp add: json_or_raise_def raise_for_status_def split: http_outcome.splits)

lemma quick_chat_eq:
  assumes "\<forall>e. net (sent s) (probe_request \<lparr>base_url = rstrip_slash url, timeout = 180\<rparr>) = Raised e
             \<longrightarrow> isinstance_RequestException e"
  shows "quick_chat fmt net p url u im s =
     (case chat net \<lparr>base_url = rstrip_slash url, timeout = 180\<rparr> p u im
             (snd (AIClient_init net url 180 s)) of
        (Inl e, s2) \<Rightarrow> (Inl e, s2)
      | (Inr r, s2) \<Rightarrow>
          (Inr (if success r then response r
                else PStr (''Error: '' @ py_str fmt (error r))), s2))"
proof -
  have "fst (AIClient_init net url 180 s) = Inr \<lparr>base_url = rstrip_slash url, timeout = 180\<rparr>"
    using assms by (rule AIClient_init_ok(1))
  then have "AIClient_init net url 180 s =
      (Inr \<lparr>base_url = rstrip_slash url, timeout = 180\<rparr>, snd (AIClient_init net url 180 s))"
    by (metis prod.collapse)
  then show ?thesis
    unfolding quick_chat_def by (metis (no_types, lifting) old.prod.case sum.case(2))
qed

section \<open>Base64: decoding undoes encoding\<close>

lemma b64_alphabet_length: "length b64_alphabet = 64"
  by (simp add: b64_alphabet_def)

lemma b64_alphabet_distinct: "distinct b64_alphabet"
  by (simp add: b64_alphabet_def)

lemma b64_index_char: "i < 64 \<Longrightarrow> b64_index (b64_char i) = Some i"
  unfolding b64_index_def b64_char_def
  using map_of_zip_nth [of b64_alphabet "[0..<64]" i]
  by (simp add: b64_alphabet_length b64_alphabet_distinct)

lemma b64_index_pad: "b64_index (CHR ''='') = None"
  by (simp add: b64_index_def b64_alphabet_def upt_rec)

lemma b64_char_not_pad: "i < 64 \<Longrightarrow> b64_char i \<noteq> CHR ''=''"
  using b64_index_char [of i] b64_index_pad by auto

lemma unat_byte_bound: "unat (a :: 8 word) < 256"
  using unsigned_less [of a, where ?'a = nat] by simp

lemma sextet_bounds:
  fixes a b c :: "8 word"
  shows "unat a div 4 < 64" "unat a mod 4 * 16 < 64" "unat a mod 4 * 16 + unat b div 16 < 64"
    "unat b mod 16 * 4 < 64" "unat b mod 16 * 4 + unat c div 64 < 64" "unat c mod 64 < 64"
  using unat_byte_bound [of a] unat_byte_bound [of b] unat_byte_bound [of c]
  by auto

text \<open>The three bytes come back from the four sextets.\<close>

lemma first_byte: "y < 256 \<Longrightarrow> x div 4 * 4 + (x mod 4 * 16 + y div 16) div 16 = (x::nat)"
  by auto

lemma first_byte_pad: "x div 4 * 4 + (x mod 4 * 16) div 16 = (x::nat)"
  by auto

lemma second_byte:
  "y < 256 \<Longrightarrow> z < 256 \<Longrightarrow>
     (x mod 4 * 16 + y div 16) mod 16 * 16 + (y mod 16 * 4 + z div 64) div 4 = (y::nat)"
  by auto

lemma second_byte_pad:
  "y < 256 \<Longrightarrow> (x mod 4 * 16 + y div 16) mod 16 * 16 + (y mod 16 * 4) div 4 = (y::nat)"
  by auto

lemma third_byte: "z < 256 \<Longrightarrow> (y mod 16 * 4 + z div 64) mod 4 * 64 + z mod 64 = (z::nat)"
  by auto

lemma b64decode_group:
  fixes a b c :: "8 word"
  assumes "b64decode (b64encode rest) = Some rest"
  shows "b64decode (b64encode (a # b # c # rest)) = Some (a # b # c # rest)"
  using assms unat_byte_bound [of a] unat_byte_bound [of b] unat_byte_bound [of c]
  by (simp add: b64_index_char b64_char_not_pad sextet_bounds
      first_byte second_byte third_byte)

lemma b64decode_one:
  fixes a :: "8 word"
  shows "b64decode (b64encode [a]) = Some [a]"
  by (simp add: b64_index_char sextet_bounds first_byte_pad)

lemma b64decode_two:
  fixes a b :: "8 word"
  shows "b64decode (b64encode [a, b]) = Some [a, b]"
  using unat_byte_bound [of a] unat_byte_bound [of b]
  by (simp add: b64_index_char b64_char_not_pad sextet_bounds first_byte second_byte_pad)

lemma b64decode_b64encode: "b64decode (b64encode bs) = Some bs"
proof (induction bs rule: b64encode.induct)
  case 1
  show ?case by simp
next
  case (2 a)
  show ?case by (rule b64decode_one)
next
  case (3 a b)
  show ?case by (rule b64decode_two)
next
  case (4 a b c rest)
  then show ?case by (rule b64decode_group)
qed

section \<open>The claims\<close>

text \<open>
  C1. \<open>chat\<close> does not raise for a failure of the network layer. When the call times
  out (\<open>Timeout\<close> or one of its subclasses) the result is the ChatResponse with status
  "error" and error "Request timeout - AI taking too long to respond". When the call
  raises any other \<open>RequestException\<close>, the result has status "error" and error
  "Request failed: " followed by the text of the exception. When the response has a
  status that \<open>raise_for_status\<close> raises for (400 to 599), the \<open>HTTPError\<close> raised
  inside the call ends in the same way, with the text of that error.
\<close>

theorem chat_network_failure:
  "(net (sent s) (chat_request self p u im) = Raised e \<and> isinstance_Timeout e \<longrightarrow>
      fst (chat net self p u im s) =
        Inr \<lparr>status = PStr ''error'', project_id = PNone, response = PNone,
             error = PStr ''Request timeout - AI taking too long to respond'',
             images_uploaded = PNone\<rparr>)
   \<and> (net (sent s) (chat_request self p u im) = Raised e \<and> isinstance_RequestException e
        \<and> \<not> isinstance_Timeout e \<longrightarrow>
      fst (chat net self p u im s) =
        Inr \<lparr>status = PStr ''error'', project_id = PNone, response = PNone,
             error = PStr (''Request failed: '' @ exc_str e), images_uploaded = PNone\<rparr>)
   \<and> (net (sent s) (chat_request self p u im) = Responded r
        \<and> 400 \<le> status_code r \<and> status_code r < 600 \<longrightarrow>
      (\<exists>details. raise_for_status r = Inl (Exc HTTPError details)
         \<and> fst (chat net self p u im s) =
        Inr \<lparr>status = PStr ''error'', project_id = PNone, response = PNone,
             error = PStr (''Request failed: '' @ details), images_uploaded = PNone\<rparr>))"
  by (auto simp add: chat_eq chat_except_def chat_parse_def raise_for_status_def)

theorem chat_network_failure_witness:
  "isinstance_Timeout (Exc ReadTimeout ''Read timed out.'')
   \<and> fst (chat (const_network (Raised (Exc ReadTimeout ''Read timed out.'')))
        \<lparr>base_url = ''http://vm:8000'', timeout = 180\<rparr> ''Hello'' None None
        \<lparr>sent = [], stdout = []\<rparr>) =
      Inr \<lparr>status = PStr ''error'', project_id = PNone, response = PNone,
           error = PStr ''Request timeout - AI taking too long to respond'',
           images_uploaded = PNone\<rparr>
   \<and> isinstance_RequestException (Exc ConnectionError ''Connection refused'')
   \<and> \<not> isinstance_Timeout (Exc ConnectionError ''Connection refused'')
   \<and> fst (chat (const_network (Raised (Exc ConnectionError ''Connection refused'')))
        \<lparr>base_url = ''http://vm:8000'', timeout = 180\<rparr> ''Hello'' None None
        \<lparr>sent = [], stdout = []\<rparr>) =
      Inr \<lparr>status = PStr ''error'', project_id = PNone, response = PNone,
           error = PStr ''Request failed: Connection refused'', images_uploaded = PNone\<rparr>
   \<and> fst (chat (const_network (Responded \<lparr>status_code = 500, reason = ''Internal Server Error'',
          resp_url = ''http://vm:8000/chat'', json_result = Inr (PDict [])\<rparr>))
        \<lparr>base_url = ''http://vm:8000'', timeout = 180\<rparr> ''Hello'' None None
        \<lparr>sent = [], stdout = []\<rparr>) =
      Inr \<lparr>status = PStr ''error'', project_id = PNone, response = PNone,
           error = PStr ''Request failed: 500 Server Error: Internal Server Error for url: http://vm:8000/chat'',
           images_uploaded = PNone\<rparr>"
  using chat_network_failure
    [of "const_network (Raised (Exc ReadTimeout ''Read timed out.''))" "\<lparr>sent = [], stdout = []\<rparr>"
        "\<lparr>base_url = ''http://vm:8000'', timeout = 180\<rparr>" "''Hello''" None None
        "Exc ReadTimeout ''Read timed out.''"]
    chat_network_failure
    [of "const_network (Raised (Exc ConnectionError ''Connection refused''))"
        "\<lparr>sent = [], stdout = []\<rparr>"
        "\<lparr>base_url = ''http://vm:8000'', timeout = 180\<rparr>" "''Hello''" None None
        "Exc ConnectionError ''Connection refused''"]
    chat_network_failure
    [of "const_network (Responded \<lparr>status_code = 500, reason = ''Internal Server Error'',
          resp_url = ''http://vm:8000/chat'', json_result = Inr (PDict [])\<rparr>)"
        "\<lparr>sent = [], stdout = []\<rparr>"
        "\<lparr>base_url = ''http://vm:8000'', timeout = 180\<rparr>" "''Hello''" None None _
        "\<lparr>status_code = 500, reason = ''Internal Server Error'',
          resp_url = ''http://vm:8000/chat'', json_result = Inr (PDict [])\<rparr>"]
  by (simp add: const_network_def raise_for_status_def str_int_def str_nat.simps)

text \<open>
  C2. When the response of \<open>chat\<close> has a status that \<open>raise_for_status\<close> lets
  pass and its body decodes to a JSON object, the ChatResponse returned is built from
  that object: \<open>status\<close> is its \<open>status\<close> entry, or "error" when there is none, and
  \<open>project_id\<close>, \<open>response\<close>, \<open>error\<close> and \<open>images_uploaded\<close> are the entries of
  those names, or \<open>None\<close> when the object has none.
\<close>

theorem chat_builds_response_from_body:
  "net (sent s) (chat_request self p u im) = Responded r
   \<and> \<not> (400 \<le> status_code r \<and> status_code r < 600)
   \<and> json_result r = Inr (PDict data) \<longrightarrow>
   fst (chat net self p u im s) =
     Inr \<lparr>status = (case map_of data ''status'' of None \<Rightarrow> PStr ''error'' | Some v \<Rightarrow> v),
          project_id = (case map_of data ''project_id'' of None \<Rightarrow> PNone | Some v \<Rightarrow> v),
          response = (case map_of data ''response'' of None \<Rightarrow> PNone | Some v \<Rightarrow> v),
          error = (case map_of data ''error'' of None \<Rightarrow> PNone | Some v \<Rightarrow> v),
          images_uploaded =
            (case map_of data ''images_uploaded'' of None \<Rightarrow> PNone | Some v \<Rightarrow> v)\<rparr>"
  by (simp add: chat_eq chat_parse_def raise_for_status_def dict_get_def)

theorem chat_builds_response_from_body_witness:
  "\<not> (400 \<le> (200::int) \<and> (200::int) < 600)
   \<and> fst (chat
        (const_network (Responded \<lparr>status_code = 200, reason = ''OK'',
           resp_url = ''http://vm:8000/chat'',
           json_result = Inr (PDict [(''response'', PStr ''Hi''), (''images_uploaded'', PInt 1)])\<rparr>))
        \<lparr>base_url = ''http://vm:8000'', timeout = 180\<rparr> ''Hello'' None (Some [''aGk='']) 
        \<lparr>sent = [], stdout = []\<rparr>) =
     Inr \<lparr>status = PStr ''error'', project_id = PNone, response = PStr ''Hi'', error = PNone,
          images_uploaded = PInt 1\<rparr>"
  using chat_builds_response_from_body
    [where net = "const_network (Responded \<lparr>status_code = 200, reason = ''OK'',
           resp_url = ''http://vm:8000/chat'',
           json_result = Inr (PDict [(''response'', PStr ''Hi''), (''images_uploaded'', PInt 1)])\<rparr>)"
       and s = "\<lparr>sent = [], stdout = []\<rparr>"
       and self = "\<lparr>base_url = ''http://vm:8000'', timeout = 180\<rparr>"
       and p = "''Hello''" and u = None and im = "Some [''aGk='']"
       and r = "\<lparr>status_code = 200, reason = ''OK'', resp_url = ''http://vm:8000/chat'',
           json_result = Inr (PDict [(''response'', PStr ''Hi''), (''images_uploaded'', PInt 1)])\<rparr>"
       and data = "[(''response'', PStr ''Hi''), (''images_uploaded'', PInt 1)]"]
  by (simp add: const_network_def)

text \<open>
  C3. \<open>quick_chat\<close> builds a client for the given base URL with the default timeout
  (the probe is its first request), calls \<open>chat\<close> once (the second request), and
  returns the response text when the result is successful and otherwise the string
  "Error: " followed by the error of the result. When the chat request fails in the
  network layer (a \<open>RequestException\<close>, or a status from 400 to 599) the value returned
  is such an "Error: " string and nothing is raised. The value returned is never the
  ChatResponse itself. The probe is taken to fail, if it fails, with a
  \<open>RequestException\<close>, the only kind of exception that requests raises for a transport
  failure.
\<close>

theorem quick_chat_text_or_error:
  "(\<forall>e. net (sent s) (probe_request \<lparr>base_url = rstrip_slash url, timeout = 180\<rparr>) = Raised e
       \<longrightarrow> isinstance_RequestException e) \<longrightarrow>
   sent (snd (quick_chat fmt net p url u im s)) =
     sent s @ [probe_request \<lparr>base_url = rstrip_slash url, timeout = 180\<rparr>,
               chat_request \<lparr>base_url = rstrip_slash url, timeout = 180\<rparr> p u im]
   \<and> (\<forall>r. fst (chat net \<lparr>base_url = rstrip_slash url, timeout = 180\<rparr> p u im
                (snd (AIClient_init net url 180 s))) = Inr r \<longrightarrow>
          fst (quick_chat fmt net p url u im s) =
            Inr (if success r then response r
                 else PStr (''Error: '' @ py_str fmt (error r))))
   \<and> (\<forall>e. net (sent s @ [probe_request \<lparr>base_url = rstrip_slash url, timeout = 180\<rparr>])
              (chat_request \<lparr>base_url = rstrip_slash url, timeout = 180\<rparr> p u im) = Raised e
            \<and> isinstance_RequestException e \<longrightarrow>
          (\<exists>msg. fst (quick_chat fmt net p url u im s) = Inr (PStr (''Error: '' @ msg))))
   \<and> (\<forall>r. net (sent s @ [probe_request \<lparr>base_url = rstrip_slash url, timeout = 180\<rparr>])
              (chat_request \<lparr>base_url = rstrip_slash url, timeout = 180\<rparr> p u im) = Responded r
            \<and> 400 \<le> status_code r \<and> status_code r < 600 \<longrightarrow>
          (\<exists>msg. fst (quick_chat fmt net p url u im s) = Inr (PStr (''Error: '' @ msg))))"
proof (intro impI conjI allI)
  assume probe: "\<forall>e. net (sent s) (probe_request \<lparr>base_url = rstrip_slash url, timeout = 180\<rparr>) = Raised e
       \<longrightarrow> isinstance_RequestException e"
  let ?c = "\<lparr>base_url = rstrip_slash url, timeout = 180\<rparr>"
  let ?s1 = "snd (AIClient_init net url 180 s)"
  have s1: "sent ?s1 = sent s @ [probe_request ?c]"
    using probe by (rule AIClient_init_ok(2))
  note q = quick_chat_eq [where net = net and s = s and url = url and fmt = fmt and p = p
      and u = u and im = im, OF probe]
  show "sent (snd (quick_chat fmt net p url u im s)) =
     sent s @ [probe_request ?c, chat_request ?c p u im]"
    by (simp add: q chat_eq s1 split: http_outcome.splits sum.splits)
  {
    fix r
    assume "fst (chat net ?c p u im ?s1) = Inr r"
    then show "fst (quick_chat fmt net p url u im s) =
            Inr (if success r then response r
                 else PStr (''Error: '' @ py_str fmt (error r)))"
      by (cases "chat net ?c p u im ?s1") (auto simp add: q)
  }
  {
    fix e
    assume "net (sent s @ [probe_request ?c]) (chat_request ?c p u im) = Raised e
            \<and> isinstance_RequestException e"
    then show "\<exists>msg. fst (quick_chat fmt net p url u im s) = Inr (PStr (''Error: '' @ msg))"
      by (simp add: q chat_eq s1 chat_except_def success_def)
  }
  {
    fix r
    assume "net (sent s @ [probe_request ?c]) (chat_request ?c p u im) = Responded r
            \<and> 400 \<le> status_code r \<and> status_code r < 600"
    then show "\<exists>msg. fst (quick_chat fmt net p url u im s) = Inr (PStr (''Error: '' @ msg))"
      by (auto simp add: q chat_eq s1 chat_parse_def raise_for_status_def chat_except_def
          success_def)
  }
qed

theorem quick_chat_text_or_error_witness:
  "fst (quick_chat type_name
        (method_network
           (Responded \<lparr>status_code = 503, reason = ''Service Unavailable'',
              resp_url = ''http://localhost:8000/status'', json_result = Inr (PDict [])\<rparr>)
           (Responded \<lparr>status_code = 200, reason = ''OK'',
              resp_url = ''http://localhost:8000/chat'',
              json_result = Inr (PDict [(''status'', PStr ''success''),
                                        (''response'', PStr ''Hi'')])\<rparr>))
        ''Hello'' ''http://localhost:8000'' None None \<lparr>sent = [], stdout = []\<rparr>) = Inr (PStr ''Hi'')
   \<and> fst (quick_chat type_name
        (method_network
           (Responded \<lparr>status_code = 200, reason = ''OK'',
              resp_url = ''http://localhost:8000/status'', json_result = Inr (PDict [])\<rparr>)
           (Responded \<lparr>status_code = 200, reason = ''OK'',
              resp_url = ''http://localhost:8000/chat'',
              json_result = Inr (PDict [(''status'', PStr ''error''),
                                        (''error'', PStr ''NOT_LOGGED_IN'')])\<rparr>))
        ''Hello'' ''http://localhost:8000'' None None \<lparr>sent = [], stdout = []\<rparr>)
       = Inr (PStr ''Error: NOT_LOGGED_IN'')
   \<and> fst (quick_chat type_name
        (method_network
           (Raised (Exc ConnectionError ''Connection refused''))
           (Raised (Exc ConnectionError ''Connection refused'')))
        ''Hello'' ''http://localhost:8000'' None None \<lparr>sent = [], stdout = []\<rparr>)
       = Inr (PStr ''Error: Request failed: Connection refused'')
   \<and> sent (snd (quick_chat type_name
        (method_network
           (Raised (Exc ConnectionError ''Connection refused''))
           (Raised (Exc ConnectionError ''Connection refused'')))
        ''Hello'' ''http://localhost:8000'' None None \<lparr>sent = [], stdout = []\<rparr>)) =
       [\<lparr>req_method = GET, req_url = ''http://localhost:8000/status'', req_json = None,
         req_timeout = 5\<rparr>,
        \<lparr>req_method = POST, req_url = ''http://localhost:8000/chat'',
         req_json = Some (PDict [(''prompt'', PStr ''Hello''), (''project_url'', PNone),
                                 (''images'', PNone)]),
         req_timeout = 180\<rparr>]"
  using quick_chat_text_or_error
    [where net = "method_network
           (Responded \<lparr>status_code = 503, reason = ''Service Unavailable'',
              resp_url = ''http://localhost:8000/status'', json_result = Inr (PDict [])\<rparr>)
           (Responded \<lparr>status_code = 200, reason = ''OK'',
              resp_url = ''http://localhost:8000/chat'',
              json_result = Inr (PDict [(''status'', PStr ''success''),
                                        (''response'', PStr ''Hi'')])\<rparr>)"
       and s = "\<lparr>sent = [], stdout = []\<rparr>" and url = "''http://localhost:8000''"
       and fmt = type_name and p = "''Hello''" and u = None and im = None]
    quick_chat_text_or_error
    [where net = "method_network
           (Responded \<lparr>status_code = 200, reason = ''OK'',
              resp_url = ''http://localhost:8000/status'', json_result = Inr (PDict [])\<rparr>)
           (Responded \<lparr>status_code = 200, reason = ''OK'',
              resp_url = ''http://localhost:8000/chat'',
              json_result = Inr (PDict [(''status'', PStr ''error''),
                                        (''error'', PStr ''NOT_LOGGED_IN'')])\<rparr>)"
       and s = "\<lparr>sent = [], stdout = []\<rparr>" and url = "''http://localhost:8000''"
       and fmt = type_name and p = "''Hello''" and u = None and im = None]
    quick_chat_text_or_error
    [where net = "method_network
           (Raised (Exc ConnectionError ''Connection refused''))
           (Raised (Exc ConnectionError ''Connection refused''))"
       and s = "\<lparr>sent = [], stdout = []\<rparr>" and url = "''http://localhost:8000''"
       and fmt = type_name and p = "''Hello''" and u = None and im = None]
  by (simp add: method_network_def probe_request_def chat_request_def chat_payload_def
      rstrip_slash_def chat_eq AIClient_init_eq verify_connection_eq chat_parse_def
      raise_for_status_def chat_except_def dict_get_def success_def)

text \<open>
  C4, as stated: a body that is not JSON, under a status that passes, makes \<open>chat\<close>
  raise the parse failure. It does not when the failure raised by \<open>json()\<close> is
  \<open>requests.exceptions.JSONDecodeError\<close>, a \<open>RequestException\<close>: the second \<open>except\<close>
  clause catches it and \<open>chat\<close> returns an error ChatResponse.
\<close>

theorem chat_malformed_body_counterexample:
  "fst (chat
        (const_network (Responded \<lparr>status_code = 200, reason = ''OK'',
           resp_url = ''http://vm:8000/chat'',
           json_result = Inl (Exc RequestsJSONDecodeError
             ''Expecting value: line 1 column 1 (char 0)'')\<rparr>))
        \<lparr>base_url = ''http://vm:8000'', timeout = 180\<rparr> ''Hello'' None None
        \<lparr>sent = [], stdout = []\<rparr>) =
     Inr \<lparr>status = PStr ''error'', project_id = PNone, response = PNone,
          error = PStr ''Request failed: Expecting value: line 1 column 1 (char 0)'',
          images_uploaded = PNone\<rparr>"
  by (simp add: chat_eq const_network_def chat_parse_def raise_for_status_def chat_except_def)

text \<open>
  C4, amended: when \<open>json()\<close> raises under a status that passes, \<open>chat\<close> lets the
  exception through to the caller if it is not a \<open>RequestException\<close> (the
  \<open>json.JSONDecodeError\<close> of requests before 2.27), and turns it into the ChatResponse
  with status "error" and error "Request failed: " followed by its text if it is
  \<open>requests.exceptions.JSONDecodeError\<close> (requests 2.27 and later).
\<close>

theorem chat_malformed_body:
  "net (sent s) (chat_request self p u im) = Responded r
   \<and> \<not> (400 \<le> status_code r \<and> status_code r < 600)
   \<and> json_result r = Inl e \<longrightarrow>
   (\<not> isinstance_RequestException e \<longrightarrow> fst (chat net self p u im s) = Inl e)
   \<and> (exc_class e = RequestsJSONDecodeError \<longrightarrow>
        fst (chat net self p u im s) =
          Inr \<lparr>status = PStr ''error'', project_id = PNone, response = PNone,
               error = PStr (''Request failed: '' @ exc_str e), images_uploaded = PNone\<rparr>)"
  by (cases e) (auto simp add: chat_eq chat_parse_def raise_for_status_def chat_except_def)

theorem chat_malformed_body_witness:
  "\<not> (400 \<le> (200::int) \<and> (200::int) < 600)
   \<and> \<not> isinstance_RequestException (Exc JSONDecodeError ''Expecting value: line 1 column 1 (char 0)'')
   \<and> fst (chat
        (const_network (Responded \<lparr>status_code = 200, reason = ''OK'',
           resp_url = ''http://vm:8000/chat'',
           json_result = Inl (Exc JSONDecodeError ''Expecting value: line 1 column 1 (char 0)'')\<rparr>))
        \<lparr>base_url = ''http://vm:8000'', timeout = 180\<rparr> ''Hello'' None None
        \<lparr>sent = [], stdout = []\<rparr>) =
     Inl (Exc JSONDecodeError ''Expecting value: line 1 column 1 (char 0)'')
   \<and> exc_class (Exc RequestsJSONDecodeError ''Extra data: line 1 column 3 (char 2)'')
        = RequestsJSONDecodeError
   \<and> fst (chat
        (const_network (Responded \<lparr>status_code = 200, reason = ''OK'',
           resp_url = ''http://vm:8000/chat'',
           json_result = Inl (Exc RequestsJSONDecodeError ''Extra data: line 1 column 3 (char 2)'')\<rparr>))
        \<lparr>base_url = ''http://vm:8000'', timeout = 180\<rparr> ''Hello'' None None
        \<lparr>sent = [], stdout = []\<rparr>) =
     Inr \<lparr>status = PStr ''error'', project_id = PNone, response = PNone,
          error = PStr ''Request failed: Extra data: line 1 column 3 (char 2)'',
          images_uploaded = PNone\<rparr>"
  using chat_malformed_body
    [where net = "const_network (Responded \<lparr>status_code = 200, reason = ''OK'',
           resp_url = ''http://vm:8000/chat'',
           json_result = Inl (Exc JSONDecodeError ''Expecting value: line 1 column 1 (char 0)'')\<rparr>)"
       and s = "\<lparr>sent = [], stdout = []\<rparr>"
       and self = "\<lparr>base_url = ''http://vm:8000'', timeout = 180\<rparr>"
       and p = "''Hello''" and u = None and im = None
       and r = "\<lparr>status_code = 200, reason = ''OK'', resp_url = ''http://vm:8000/chat'',
           json_result = Inl (Exc JSONDecodeError ''Expecting value: line 1 column 1 (char 0)'')\<rparr>"
       and e = "Exc JSONDecodeError ''Expecting value: line 1 column 1 (char 0)''"]
    chat_malformed_body
    [where net = "const_network (Responded \<lparr>status_code = 200, reason = ''OK'',
           resp_url = ''http://vm:8000/chat'',
           json_result = Inl (Exc RequestsJSONDecodeError ''Extra data: line 1 column 3 (char 2)'')\<rparr>)"
       and s = "\<lparr>sent = [], stdout = []\<rparr>"
       and self = "\<lparr>base_url = ''http://vm:8000'', timeout = 180\<rparr>"
       and p = "''Hello''" and u = None and im = None
       and r = "\<lparr>status_code = 200, reason = ''OK'', resp_url = ''http://vm:8000/chat'',
           json_result = Inl (Exc RequestsJSONDecodeError ''Extra data: line 1 column 3 (char 2)'')\<rparr>"
       and e = "Exc RequestsJSONDecodeError ''Extra data: line 1 column 3 (char 2)''"]
  by (simp add: const_network_def)

text \<open>
  C5. Constructing a client succeeds whatever the probe gives. The probe is a GET to
  the base URL (trailing slashes removed) followed by \<open>/status\<close>, with a timeout of 5
  seconds. A response with a status other than 200 prints one warning line, a response
  with status 200 prints nothing, and a transport failure (a \<open>RequestException\<close>)
  prints one warning line; in each case the client is returned and nothing is raised.
\<close>

theorem init_succeeds_whatever_the_probe:
  "(net (sent s) \<lparr>req_method = GET, req_url = rstrip_slash url @ ''/status'', req_json = None,
                  req_timeout = 5\<rparr> = Responded r \<longrightarrow>
      AIClient_init net url t s =
        (Inr \<lparr>base_url = rstrip_slash url, timeout = t\<rparr>,
         \<lparr>sent = sent s @ [\<lparr>req_method = GET, req_url = rstrip_slash url @ ''/status'',
                              req_json = None, req_timeout = 5\<rparr>],
          stdout = stdout s @
            (if status_code r = 200 then []
             else [''Warning: API returned status code '' @ str_int (status_code r)])\<rparr>))
   \<and> (net (sent s) \<lparr>req_method = GET, req_url = rstrip_slash url @ ''/status'', req_json = None,
                  req_timeout = 5\<rparr> = Raised e \<and> isinstance_RequestException e \<longrightarrow>
      AIClient_init net url t s =
        (Inr \<lparr>base_url = rstrip_slash url, timeout = t\<rparr>,
         \<lparr>sent = sent s @ [\<lparr>req_method = GET, req_url = rstrip_slash url @ ''/status'',
                              req_json = None, req_timeout = 5\<rparr>],
          stdout = stdout s @ [''Warning: Could not connect to API: '' @ exc_str e]\<rparr>))"
  by (simp add: AIClient_init_eq verify_connection_eq probe_request_def)

theorem init_succeeds_whatever_the_probe_witness:
  "AIClient_init
      (const_network (Responded \<lparr>status_code = 503, reason = ''Service Unavailable'',
         resp_url = ''http://vm:8000/status'', json_result = Inr (PDict [])\<rparr>))
      ''http://vm:8000/'' 180 \<lparr>sent = [], stdout = []\<rparr> =
     (Inr \<lparr>base_url = ''http://vm:8000'', timeout = 180\<rparr>,
      \<lparr>sent = [\<lparr>req_method = GET, req_url = ''http://vm:8000/status'', req_json = None,
                 req_timeout = 5\<rparr>],
       stdout = [''Warning: API returned status code 503'']\<rparr>)
   \<and> isinstance_RequestException (Exc ConnectionError ''Connection refused'')
   \<and> AIClient_init (const_network (Raised (Exc ConnectionError ''Connection refused'')))
      ''http://vm:8000/'' 180 \<lparr>sent = [], stdout = []\<rparr> =
     (Inr \<lparr>base_url = ''http://vm:8000'', timeout = 180\<rparr>,
      \<lparr>sent = [\<lparr>req_method = GET, req_url = ''http://vm:8000/status'', req_json = None,
                 req_timeout = 5\<rparr>],
       stdout = [''Warning: Could not connect to API: Connection refused'']\<rparr>)"
  using init_succeeds_whatever_the_probe
    [where net = "const_network (Responded \<lparr>status_code = 503, reason = ''Service Unavailable'',
         resp_url = ''http://vm:8000/status'', json_result = Inr (PDict [])\<rparr>)"
       and s = "\<lparr>sent = [], stdout = []\<rparr>" and url = "''http://vm:8000/''" and t = 180
       and r = "\<lparr>status_code = 503, reason = ''Service Unavailable'',
         resp_url = ''http://vm:8000/status'', json_result = Inr (PDict [])\<rparr>"]
    init_succeeds_whatever_the_probe
    [where net = "const_network (Raised (Exc ConnectionError ''Connection refused''))"
       and s = "\<lparr>sent = [], stdout = []\<rparr>" and url = "''http://vm:8000/''" and t = 180
       and e = "Exc ConnectionError ''Connection refused''"]
  by (simp add: const_network_def rstrip_slash_def str_int_def str_nat.simps)

text \<open>
  C6, as stated: \<open>get_status\<close> raises on any status outside 200 to 299. It does not
  for a status that \<open>raise_for_status\<close> lets pass: a response with status 300 and a
  JSON body is returned decoded.
\<close>

theorem get_status_redirect_counterexample:
  "fst (get_status
        (const_network (Responded \<lparr>status_code = 300, reason = ''Multiple Choices'',
           resp_url = ''http://vm:8000/status'',
           json_result = Inr (PDict [(''api_status'', PStr ''running'')])\<rparr>))
        \<lparr>base_url = ''http://vm:8000'', timeout = 180\<rparr> \<lparr>sent = [], stdout = []\<rparr>) =
     Inr (PDict [(''api_status'', PStr ''running'')])"
  by (simp add: get_status_def requests_get_def requests_request_def const_network_def
      json_or_raise_def raise_for_status_def)

text \<open>
  C6, amended: \<open>get_status\<close>, \<open>list_projects\<close> and \<open>reload_engine\<close> send one request
  each (GET \<open>/status\<close> with a timeout of 5 seconds, GET \<open>/projects\<close> with 5 seconds,
  POST \<open>/reload\<close> with 30 seconds). An exception of the call reaches the caller as it
  is; a status from 400 to 599 reaches the caller as an \<open>HTTPError\<close>; for any other
  status the result is what \<open>json()\<close> gives, the decoded body as it is.
\<close>

theorem monitoring_operations_raise:
  "get_status net self s =
     (case net (sent s) \<lparr>req_method = GET, req_url = base_url self @ ''/status'',
                         req_json = None, req_timeout = 5\<rparr> of
        Raised e \<Rightarrow> Inl e
      | Responded r \<Rightarrow>
          if 400 \<le> status_code r \<and> status_code r < 600
          then Inl (Exc HTTPError (str_int (status_code r)
                 @ (if status_code r < 500 then '' Client Error: '' else '' Server Error: '')
                 @ reason r @ '' for url: '' @ resp_url r))
          else json_result r,
      s\<lparr>sent := sent s @ [\<lparr>req_method = GET, req_url = base_url self @ ''/status'',
                             req_json = None, req_timeout = 5\<rparr>]\<rparr>)
   \<and> list_projects net self s =
     (case net (sent s) \<lparr>req_method = GET, req_url = base_url self @ ''/projects'',
                         req_json = None, req_timeout = 5\<rparr> of
        Raised e \<Rightarrow> Inl e
      | Responded r \<Rightarrow>
          if 400 \<le> status_code r \<and> status_code r < 600
          then Inl (Exc HTTPError (str_int (status_code r)
                 @ (if status_code r < 500 then '' Client Error: '' else '' Server Error: '')
                 @ reason r @ '' for url: '' @ resp_url r))
          else json_result r,
      s\<lparr>sent := sent s @ [\<lparr>req_method = GET, req_url = base_url self @ ''/projects'',
                             req_json = None, req_timeout = 5\<rparr>]\<rparr>)
   \<and> reload_engine net self s =
     (case net (sent s) \<lparr>req_method = POST, req_url = base_url self @ ''/reload'',
                         req_json = None, req_timeout = 30\<rparr> of
        Raised e \<Rightarrow> Inl e
      | Responded r \<Rightarrow>
          if 400 \<le> status_code r \<and> status_code r < 600
          then Inl (Exc HTTPError (str_int (status_code r)
                 @ (if status_code r < 500 then '' Client Error: '' else '' Server Error: '')
                 @ reason r @ '' for url: '' @ resp_url r))
          else json_result r,
      s\<lparr>sent := sent s @ [\<lparr>req_method = POST, req_url = base_url self @ ''/reload'',
                             req_json = None, req_timeout = 30\<rparr>]\<rparr>)"
  by (simp add: get_status_def list_projects_def reload_engine_def requests_get_def
      requests_post_def requests_request_def monitoring_eq)

text \<open>
  C7. For a path that names a file, \<open>encode_image\<close> returns a text whose base64
  decoding is the bytes of the file. For a path that names nothing, it fails with
  \<open>FileNotFoundError\<close>, which reaches the caller as it is.
\<close>

theorem encode_image_roundtrip:
  "(fs path = Some (RegularFile bs) \<longrightarrow>
      (\<exists>text. encode_image fs path = Inr text \<and> b64decode text = Some bs))
   \<and> (fs path = None \<longrightarrow>
      (\<exists>msg. encode_image fs path = Inl (Exc FileNotFoundError msg)))"
  by (simp add: encode_image_def open_rb_def b64decode_b64encode)

theorem encode_image_roundtrip_witness:
  "one_file ''photo.jpg'' [0x4d, 0x61, 0x6e, 0xff] ''photo.jpg''
      = Some (RegularFile [0x4d, 0x61, 0x6e, 0xff])
   \<and> encode_image (one_file ''photo.jpg'' [0x4d, 0x61, 0x6e, 0xff]) ''photo.jpg'' = Inr ''TWFu/w==''
   \<and> b64decode ''TWFu/w=='' = Some [0x4d, 0x61, 0x6e, 0xff]
   \<and> one_file ''photo.jpg'' [0x4d, 0x61, 0x6e, 0xff] ''missing.png'' = None
   \<and> encode_image (one_file ''photo.jpg'' [0x4d, 0x61, 0x6e, 0xff]) ''missing.png''
      = Inl (Exc FileNotFoundError ''[Errno 2] No such file or directory: missing.png'')"
  using encode_image_roundtrip
    [of "one_file ''photo.jpg'' [0x4d, 0x61, 0x6e, 0xff]" "''photo.jpg''" "[0x4d, 0x61, 0x6e, 0xff]"]
    encode_image_roundtrip
    [of "one_file ''photo.jpg'' [0x4d, 0x61, 0x6e, 0xff]" "''missing.png''"]
  by (simp add: one_file_def encode_image_def open_rb_def b64_char_def b64_alphabet_def)

text \<open>
  C8. \<open>chat\<close> sends one request, a POST to the base URL followed by \<open>/chat\<close>, with
  the client's timeout and a JSON body of exactly the keys \<open>prompt\<close>, \<open>project_url\<close>
  and \<open>images\<close>; a project URL or an image list that is not given is there as
  \<open>None\<close> (JSON null). Nothing is printed.
\<close>

theorem chat_issues_post:
  "snd (chat net self prompt project_url images s) =
     s\<lparr>sent := sent s @
       [\<lparr>req_method = POST, req_url = base_url self @ ''/chat'',
         req_json = Some (PDict
           [(''prompt'', PStr prompt),
            (''project_url'', case project_url of None \<Rightarrow> PNone | Some u \<Rightarrow> PStr u),
            (''images'', case images of None \<Rightarrow> PNone | Some xs \<Rightarrow> PList (map PStr xs))]),
         req_timeout = timeout self\<rparr>]\<rparr>
   \<and> snd (chat net self prompt None None s) =
     s\<lparr>sent := sent s @
       [\<lparr>req_method = POST, req_url = base_url self @ ''/chat'',
         req_json = Some (PDict
           [(''prompt'', PStr prompt), (''project_url'', PNone), (''images'', PNone)]),
         req_timeout = timeout self\<rparr>]\<rparr>"
  by (simp add: chat_eq chat_request_def chat_payload_def)

text \<open>
  C9. For every ChatResponse, the \<open>success\<close> accessor is true exactly when the status
  is the string "success"; any other status string, and the status that \<open>chat\<close> puts
  when the body has none ("error"), gives false.
\<close>

theorem success_iff_status:
  "(success r \<longleftrightarrow> status r = PStr ''success'')
   \<and> (success (r\<lparr>status := PStr t\<rparr>) \<longleftrightarrow> t = ''success'')
   \<and> \<not> success (r\<lparr>status := dict_get [] ''status'' (PStr ''error'')\<rparr>)"
  by (simp add: success_def dict_get_def)

text \<open>
  C10. When the body of the chat response is a JSON object with status "success" and no
  \<open>response\<close> entry, \<open>quick_chat\<close> returns \<open>None\<close>, not a string.
\<close>

theorem quick_chat_returns_none:
  "(\<forall>e. net (sent s) (probe_request \<lparr>base_url = rstrip_slash url, timeout = 180\<rparr>) = Raised e
       \<longrightarrow> isinstance_RequestException e)
   \<and> net (sent s @ [probe_request \<lparr>base_url = rstrip_slash url, timeout = 180\<rparr>])
         (chat_request \<lparr>base_url = rstrip_slash url, timeout = 180\<rparr> p u im) = Responded r
   \<and> \<not> (400 \<le> status_code r \<and> status_code r < 600)
   \<and> json_result r = Inr (PDict data)
   \<and> map_of data ''status'' = Some (PStr ''success'')
   \<and> map_of data ''response'' = None \<longrightarrow>
   fst (quick_chat fmt net p url u im s) = Inr PNone"
proof (intro impI, elim conjE)
  let ?c = "\<lparr>base_url = rstrip_slash url, timeout = 180\<rparr>"
  assume probe: "\<forall>e. net (sent s) (probe_request ?c) = Raised e \<longrightarrow> isinstance_RequestException e"
    and answer: "net (sent s @ [probe_request ?c]) (chat_request ?c p u im) = Responded r"
    and ok: "\<not> (400 \<le> status_code r \<and> status_code r < 600)"
    and body: "json_result r = Inr (PDict data)"
    and st: "map_of data ''status'' = Some (PStr ''success'')"
    and no_text: "map_of data ''response'' = None"
  have s1: "sent (snd (AIClient_init net url 180 s)) = sent s @ [probe_request ?c]"
    using probe by (rule AIClient_init_ok(2))
  note q = quick_chat_eq [where net = net and s = s and url = url and fmt = fmt and p = p
      and u = u and im = im, OF probe]
  have no_raise: "raise_for_status r = Inr ()"
    using ok by (auto simp add: raise_for_status_def)
  from answer body st no_text show "fst (quick_chat fmt net p url u im s) = Inr PNone"
    by (simp add: q chat_eq s1 chat_parse_def no_raise dict_get_def success_def)
qed

theorem quick_chat_returns_none_witness:
  "fst (quick_chat type_name
        (method_network
           (Responded \<lparr>status_code = 200, reason = ''OK'',
              resp_url = ''http://localhost:8000/status'', json_result = Inr (PDict [])\<rparr>)
           (Responded \<lparr>status_code = 200, reason = ''OK'',
              resp_url = ''http://localhost:8000/chat'',
              json_result = Inr (PDict [(''status'', PStr ''success''),
                                        (''project_id'', PStr ''p1'')])\<rparr>))
        ''Hello'' ''http://localhost:8000'' None None \<lparr>sent = [], stdout = []\<rparr>) = Inr PNone"
  using quick_chat_returns_none
    [where net = "method_network
           (Responded \<lparr>status_code = 200, reason = ''OK'',
              resp_url = ''http://localhost:8000/status'', json_result = Inr (PDict [])\<rparr>)
           (Responded \<lparr>status_code = 200, reason = ''OK'',
              resp_url = ''http://localhost:8000/chat'',
              json_result = Inr (PDict [(''status'', PStr ''success''),
                                        (''project_id'', PStr ''p1'')])\<rparr>)"
       and s = "\<lparr>sent = [], stdout = []\<rparr>" and url = "''http://localhost:8000''"
       and fmt = type_name and p = "''Hello''" and u = None and im = None
       and r = "\<lparr>status_code = 200, reason = ''OK'',
              resp_url = ''http://localhost:8000/chat'',
              json_result = Inr (PDict [(''status'', PStr ''success''),
                                        (''project_id'', PStr ''p1'')])\<rparr>"
       and data = "[(''status'', PStr ''success''), (''project_id'', PStr ''p1'')]"]
  by (simp add: method_network_def probe_request_def chat_request_def)

end
